theory Spec2Isabelle
  imports Complex_Main
begin

section \<open>Values and failures\<close>

text \<open>
  The values Python's \<open>json\<close> decoder produces (what \<open>response.json()\<close> returns):
  \<open>None\<close>, \<open>bool\<close>, \<open>int\<close>, \<open>float\<close>, \<open>str\<close>, \<open>list\<close> and \<open>dict\<close>. A \<open>dict\<close> is an
  association list in insertion order; Python keeps its keys distinct, which no theorem
  below relies on. A \<open>float\<close> is stood for by a real number: the code of this repository
  never looks inside a number.
\<close>

datatype json =
    JNull
  | JBool bool
  | JInt int
  | JFloat real
  | JStr string
  | JArr "json list"
  | JObj "(string \<times> json) list"

text \<open>
  A raised Python exception. \<open>AttributeError t a\<close> is
  \<^verbatim>\<open>'t' object has no attribute 'a'\<close>, \<open>KeyError k\<close> a missing dictionary key, and
  \<open>Raised cls\<close> an exception of class \<open>cls\<close> raised inside a collaborator (the HTTP
  client, the agent executor, the chat model, the output parser).
\<close>

datatype error =
    AttributeError string string
  | KeyError string
  | Raised string

fun exception_class :: "error \<Rightarrow> string" where
  "exception_class (AttributeError t a) = ''AttributeError''"
| "exception_class (KeyError k) = ''KeyError''"
| "exception_class (Raised cls) = cls"

fun type_name :: "json \<Rightarrow> string" where
  "type_name JNull = ''NoneType''"
| "type_name (JBool b) = ''bool''"
| "type_name (JInt i) = ''int''"
| "type_name (JFloat x) = ''float''"
| "type_name (JStr s) = ''str''"
| "type_name (JArr xs) = ''list''"
| "type_name (JObj kvs) = ''dict''"

text \<open>\<open>d.get(k)\<close>: the value under \<open>k\<close>, \<open>None\<close> when the key is missing; only a \<open>dict\<close>
  has the method.\<close>

fun py_get :: "json \<Rightarrow> string \<Rightarrow> error + json" where
  "py_get (JObj kvs) k = Inr (case map_of kvs k of None \<Rightarrow> JNull | Some v \<Rightarrow> v)"
| "py_get v k = Inl (AttributeError (type_name v) ''get'')"

text \<open>\<open>d.items()\<close>: again only a \<open>dict\<close> has the method.\<close>

fun py_items :: "json \<Rightarrow> error + (string \<times> json) list" where
  "py_items (JObj kvs) = Inr kvs"
| "py_items v = Inl (AttributeError (type_name v) ''items'')"

text \<open>Sequencing of steps that may raise: the first exception ends the function.\<close>

definition and_then :: "error + 'a \<Rightarrow> ('a \<Rightarrow> error + 'b) \<Rightarrow> error + 'b" where
  "and_then r f = (case r of Inl e \<Rightarrow> Inl e | Inr x \<Rightarrow> f x)"

section \<open>Collaborators\<close>

text \<open>
  The result of \<open>requests.get\<close>: the only thing the code does with it is call
  \<open>.json()\<close>, which returns the decoded body or raises.
\<close>

datatype response = Response (response_json: "error + json")

text \<open>The structured result declared in \<^verbatim>\<open>output_parsers.py\<close> (class \<open>Summary\<close>).\<close>

record Summary =
  summary :: string
  facts :: "string list"

definition to_dict :: "Summary \<Rightarrow> (string \<times> json) list" where
  "to_dict s = [(''summary'', JStr (summary s)), (''facts'', JArr (map JStr (facts s)))]"

text \<open>
  Everything the repository imports and calls but does not define is a parameter:
  the process environment (\<open>os.getenv\<close>), the HTTP client (\<open>requests.get\<close> with its
  query parameters and timeout), the agent executor's \<open>invoke\<close> (prompt text to result
  dictionary), the chat model (prompt text to reply text), the output parser built by
  \<open>PydanticOutputParser(pydantic_object=Summary)\<close> (its \<open>parse\<close> and its format
  instructions), and Python's \<open>str()\<close> of a dictionary as a prompt template inserts it.
\<close>

record collaborators =
  getenv :: "string \<Rightarrow> string option"
  requests_get :: "string \<Rightarrow> (string \<times> string option) list \<Rightarrow> nat \<Rightarrow> error + response"
  agent_executor_invoke :: "string \<Rightarrow> error + (string \<times> string) list"
  chat_model :: "string \<Rightarrow> error + string"
  summary_output_parser :: "string \<Rightarrow> error + Summary"
  get_format_instructions :: string
  py_str :: "(string \<times> json) list \<Rightarrow> string"

text \<open>The calls a function makes to the outside, in order.\<close>

datatype call =
    HttpGet string "(string \<times> string option) list" nat
  | AgentInvoke string
  | ModelInvoke string

section \<open>The profile data source (\<^verbatim>\<open>linkedin.py\<close>)\<close>

definition mock_url :: string where
  "mock_url = ''https://gist.githubusercontent.com/YFolla/ff1954753eb6354728a292e77ee10795/raw/b177fcc64b7308b8b3a81eddbbb09bf647ed19c6/yfolla_linkedin.json''"

definition api_endpoint :: string where
  "api_endpoint = ''https://api.scrapin.io/enrichment/profile''"

text \<open>\<open>v in ([], "", None)\<close>: membership in the tuple is equality with one of its three
  elements.\<close>

definition in_empties :: "json \<Rightarrow> bool" where
  "in_empties v \<longleftrightarrow> v = JArr [] \<or> v = JStr [] \<or> v = JNull"

text \<open>The dictionary comprehension
  \<^verbatim>\<open>{k: v for k, v in data.items() if v not in ([], "", None) and k not in ["certifications"]}\<close>
  applied to the items of \<open>data\<close>.\<close>

definition clean :: "(string \<times> json) list \<Rightarrow> (string \<times> json) list" where
  "clean kvs = filter (\<lambda>(k, v). \<not> in_empties v \<and> k \<notin> set [''certifications'']) kvs"

text \<open>The request the function sends: in mock mode the argument is overwritten by the
  fixture's address and no query parameters are passed.\<close>

definition scrape_linkedin_profile ::
  "collaborators \<Rightarrow> string \<Rightarrow> bool \<Rightarrow> call list \<times> (error + (string \<times> json) list)" where
  "scrape_linkedin_profile c linkedin_profile_url mock =
     (let (url, params) =
            (if mock then (mock_url, [])
             else (api_endpoint,
                   [(''apikey'', getenv c ''SCRAPIN_API_KEY''),
                    (''linkedInUrl'', Some linkedin_profile_url)]))
      in ([HttpGet url params 10],
          and_then (requests_get c url params 10) (\<lambda>response.
          and_then (response_json response) (\<lambda>body.
          and_then (py_get body ''person'') (\<lambda>data.
          and_then (py_items data) (\<lambda>kvs.
          Inr (clean kvs)))))))"

section \<open>The search tool (\<^verbatim>\<open>tools/tools.py\<close>)\<close>

text \<open>\<open>search_run\<close> is \<open>TavilySearchResults(max_results=1).run\<close>, the search backend.\<close>

definition get_profile_url_tavily :: "(string \<Rightarrow> error + string) \<Rightarrow> string \<Rightarrow> error + string" where
  "get_profile_url_tavily search_run name = search_run (name @ '' LinkedIn profile'')"

section \<open>The resolver (\<^verbatim>\<open>agents/linkedin_lookup_agent.py\<close>)\<close>

text \<open>The task template with \<open>{name_of_person}\<close> filled in.\<close>

definition lookup_prompt :: "string \<Rightarrow> string" where
  "lookup_prompt name =
     [CHR 0x0A] @ ''        given the full name '' @ name
     @ '', I want you to get back the LinkedIn profile URL. Your answer should ONLY contain a URL.''
     @ [CHR 0x0A] @ ''        If you cannot find it, return an empty string.''
     @ [CHR 0x0A] @ ''    ''"

text \<open>\<open>lookup\<close> hands the prompt to the executor and returns \<open>result["output"]\<close>; it
  raises nothing of its own but the \<open>KeyError\<close> of a result without that key.\<close>

definition lookup :: "collaborators \<Rightarrow> string \<Rightarrow> call list \<times> (error + string)" where
  "lookup c name =
     (let input = lookup_prompt name
      in ([AgentInvoke input],
          and_then (agent_executor_invoke c input) (\<lambda>result.
          case map_of result ''output'' of
            None \<Rightarrow> Inl (KeyError ''output'')
          | Some linkedin_profile_url \<Rightarrow> Inr linkedin_profile_url)))"

text \<open>
  The executor is the \<open>AgentExecutor(agent=agent, tools=tools_for_agent, verbose=True)\<close>
  that \<open>lookup\<close> builds from LangChain's classes. \<open>lookup\<close> passes it no iteration limit
  and no stopping policy, and does not look at its output before returning it.
\<close>

section \<open>The orchestrator (\<^verbatim>\<open>ice_breaker.py\<close>)\<close>

text \<open>The summary template with \<open>{information}\<close> and \<open>{format_instructions}\<close> filled in.\<close>

definition summary_prompt :: "collaborators \<Rightarrow> (string \<times> json) list \<Rightarrow> string" where
  "summary_prompt c information =
     [CHR 0x0A] @ ''          given the LinkedIn information '' @ py_str c information
     @ '' about a person, I want you to create a short summary of 2-3 sentences that includes two interesting facts about them.''
     @ [CHR 0x0A] @ ''          '' @ [CHR 0x0A] @ get_format_instructions c
     @ [CHR 0x0A] @ ''    ''"

text \<open>
  Resolver, then data source (never in mock mode), then the chain
  \<open>summary_prompt_template | llm | summary_output_parser\<close>; the result is paired with
  \<open>linkedin_data.get("photoUrl")\<close>, where \<open>None\<close> of the \<open>option\<close> type is Python's
  \<open>None\<close>. No step is guarded: each value goes to the next stage as it is.
\<close>

definition ice_break_with ::
  "collaborators \<Rightarrow> string \<Rightarrow> call list \<times> (error + Summary \<times> json option)" where
  "ice_break_with c name =
     (case lookup c name of
        (t1, Inl e) \<Rightarrow> (t1, Inl e)
      | (t1, Inr linkedin_username) \<Rightarrow>
          (case scrape_linkedin_profile c linkedin_username False of
             (t2, Inl e) \<Rightarrow> (t1 @ t2, Inl e)
           | (t2, Inr linkedin_data) \<Rightarrow>
               (let prompt = summary_prompt c linkedin_data
                in (t1 @ t2 @ [ModelInvoke prompt],
                    and_then (chat_model c prompt) (\<lambda>text.
                    and_then (summary_output_parser c text) (\<lambda>result.
                    Inr (result, map_of linkedin_data ''photoUrl'')))))))"

section \<open>Concrete collaborators for the concrete runs below\<close>

text \<open>A reply of the chat model that carries the JSON object the summary schema asks for.\<close>

definition summary_reply :: string where
  \<open>summary_reply = ''{"summary": "A is a engineer.", "facts": ["fact1","fact2"]}''\<close>

text \<open>A world in which the data source answers every request with \<open>body\<close>, the
  executor ends every run with the output \<open>url\<close>, the chat model replies with
  \<open>summary_reply\<close>, and the parser returns the summary that reply spells out and raises
  on any other text.\<close>

definition stub :: "json \<Rightarrow> string \<Rightarrow> collaborators" where
  "stub body url =
     \<lparr> getenv = (\<lambda>var. Some ''key''),
       requests_get = (\<lambda>address params timeout. Inr (Response (Inr body))),
       agent_executor_invoke = (\<lambda>input. Inr [(''input'', input), (''output'', url)]),
       chat_model = (\<lambda>prompt. Inr summary_reply),
       summary_output_parser =
         (\<lambda>reply. if reply = summary_reply
            then Inr \<lparr> summary = ''A is a engineer.'', facts = [''fact1'', ''fact2''] \<rparr>
            else Inl (Raised ''OutputParserException'')),
       get_format_instructions = [],
       py_str = (\<lambda>d. []) \<rparr>"

definition person_example :: "(string \<times> json) list" where
  "person_example =
     [(''name'', JStr ''X''), (''certifications'', JArr [JStr ''c1'']),
      (''bio'', JStr []), (''skills'', JArr [JStr ''s1''])]"

definition person_with_photo :: "(string \<times> json) list" where
  "person_with_photo = [(''name'', JStr ''X''), (''photoUrl'', JStr ''https://img/x.png'')]"

text \<open>The output with which LangChain's executor, under the defaults \<open>lookup\<close> leaves in
  place (at most 15 iterations, stopping policy \<open>force\<close>), ends a run whose model has
  given no final answer when the iterations are used up.\<close>

definition stopped_output :: string where
  "stopped_output = ''Agent stopped due to iteration limit or time limit.''"

section \<open>The cleaning filter and the data source\<close>

lemmas scrape_defs = scrape_linkedin_profile_def and_then_def Let_def

lemma clean_member:
  "(k, v) \<in> set (clean kvs) \<longleftrightarrow>
     (k, v) \<in> set kvs \<and> \<not> in_empties v \<and> k \<noteq> ''certifications''"
  by (auto simp: clean_def)

lemma scrape_result_is_clean:
  assumes "scrape_linkedin_profile c url mock = (tr, Inr doc)"
  shows "\<exists>kvs. doc = clean kvs"
  using assms
  by (auto simp: scrape_defs split: if_splits sum.splits prod.splits)

lemma scrape_trace:
  "fst (scrape_linkedin_profile c url False)
     = [HttpGet api_endpoint
          [(''apikey'', getenv c ''SCRAPIN_API_KEY''), (''linkedInUrl'', Some url)] 10]"
  by (simp add: scrape_defs)

text \<open>
  Claim C3. Whenever \<open>scrape_linkedin_profile\<close> returns a document, no value in it is
  \<open>[]\<close>, \<open>""\<close> or \<open>None\<close> (the empty values of a document of scalars and arrays) and no
  key is \<open>certifications\<close>; and when the data source's person object is
  \<open>{"name": "X", "certifications": ["c1"], "bio": "", "skills": ["s1"]}\<close> the document
  returned is exactly \<open>{"name": "X", "skills": ["s1"]}\<close>.
\<close>

theorem cleaned_document_no_empty_no_certifications:
  assumes "scrape_linkedin_profile c url mock = (tr, Inr doc)"
  shows "(\<forall>(k, v) \<in> set doc. v \<noteq> JArr [] \<and> v \<noteq> JStr [] \<and> v \<noteq> JNull)
       \<and> ''certifications'' \<notin> fst ` set doc
       \<and> snd (scrape_linkedin_profile (stub (JObj [(''person'', JObj person_example)]) url) url mock)
           = Inr [(''name'', JStr ''X''), (''skills'', JArr [JStr ''s1''])]"
proof -
  obtain kvs where doc: "doc = clean kvs"
    using scrape_result_is_clean[OF assms] by blast
  have no_empty: "\<forall>(k, v) \<in> set doc. v \<noteq> JArr [] \<and> v \<noteq> JStr [] \<and> v \<noteq> JNull"
    unfolding doc by (auto simp: clean_member in_empties_def)
  have no_cert: "''certifications'' \<notin> fst ` set doc"
    unfolding doc by (auto simp: clean_member)
  have example:
    "snd (scrape_linkedin_profile (stub (JObj [(''person'', JObj person_example)]) url) url mock)
       = Inr [(''name'', JStr ''X''), (''skills'', JArr [JStr ''s1''])]"
    by (simp add: scrape_defs stub_def person_example_def clean_def in_empties_def)
  from no_empty no_cert example show ?thesis by blast
qed

theorem cleaned_document_no_empty_no_certifications_witness:
  "scrape_linkedin_profile (stub (JObj [(''person'', JObj person_example)]) ''u'') ''u'' False
     = ([HttpGet api_endpoint [(''apikey'', Some ''key''), (''linkedInUrl'', Some ''u'')] 10],
        Inr [(''name'', JStr ''X''), (''skills'', JArr [JStr ''s1''])])
   \<and> ''certifications'' \<notin> fst ` set [(''name'', JStr ''X''), (''skills'', JArr [JStr ''s1''])]"
proof -
  have run:
    "scrape_linkedin_profile (stub (JObj [(''person'', JObj person_example)]) ''u'') ''u'' False
       = ([HttpGet api_endpoint [(''apikey'', Some ''key''), (''linkedInUrl'', Some ''u'')] 10],
          Inr [(''name'', JStr ''X''), (''skills'', JArr [JStr ''s1''])])"
    by (simp add: scrape_defs stub_def person_example_def clean_def in_empties_def)
  from cleaned_document_no_empty_no_certifications[OF run] run show ?thesis by blast
qed

text \<open>
  Claim C10 fails as stated at the key \<open>certifications\<close>: the empty dictionary is none
  of \<open>[]\<close>, \<open>""\<close>, \<open>None\<close>, yet for the person object \<open>{"certifications": {}}\<close> the
  document returned is empty, because the same filter also drops that key.
\<close>

theorem certifications_dropped_with_empty_dict:
  "JObj [] \<noteq> JArr [] \<and> JObj [] \<noteq> JStr [] \<and> JObj [] \<noteq> JNull
   \<and> snd (scrape_linkedin_profile
            (stub (JObj [(''person'', JObj [(''certifications'', JObj [])])]) ''u'') ''u'' False)
       = Inr []"
  by (simp add: scrape_defs stub_def clean_def in_empties_def)

text \<open>
  Claim C10, amended. A pair of the person object is kept by the filter exactly when its
  key is not \<open>certifications\<close> and its value is none of \<open>[]\<close>, \<open>""\<close>, \<open>None\<close>. So under
  every other key the values \<open>{}\<close>, \<open>0\<close>, \<open>0.0\<close> and \<open>False\<close> are kept, under the key
  \<open>certifications\<close> every value is removed, and the filter adds no pair of its own.
\<close>

theorem clean_keeps_other_values_outside_denylist:
  assumes "(k, v) \<in> set kvs"
  shows "((k, v) \<in> set (clean kvs)
            \<longleftrightarrow> k \<noteq> ''certifications'' \<and> v \<noteq> JArr [] \<and> v \<noteq> JStr [] \<and> v \<noteq> JNull)
       \<and> (k \<noteq> ''certifications''
            \<and> (v = JObj [] \<or> v = JInt 0 \<or> v = JFloat 0 \<or> v = JBool False)
            \<longrightarrow> (k, v) \<in> set (clean kvs))
       \<and> (\<forall>w. (''certifications'', w) \<notin> set (clean kvs))
       \<and> set (clean kvs) \<subseteq> set kvs"
proof -
  have kept: "(k, v) \<in> set (clean kvs)
            \<longleftrightarrow> k \<noteq> ''certifications'' \<and> v \<noteq> JArr [] \<and> v \<noteq> JStr [] \<and> v \<noteq> JNull"
    using assms by (auto simp: clean_member in_empties_def)
  have others: "k \<noteq> ''certifications''
            \<and> (v = JObj [] \<or> v = JInt 0 \<or> v = JFloat 0 \<or> v = JBool False)
            \<longrightarrow> (k, v) \<in> set (clean kvs)"
    using assms by (auto simp: clean_member in_empties_def)
  have denied: "\<forall>w. (''certifications'', w) \<notin> set (clean kvs)"
    by (simp add: clean_member)
  have sub: "set (clean kvs) \<subseteq> set kvs"
    by (auto simp: clean_def)
  from kept others denied sub show ?thesis by blast
qed

theorem clean_keeps_other_values_outside_denylist_witness:
  "(''bio'', JObj [])
     \<in> set [(''bio'', JObj []), (''certifications'', JObj []), (''n'', JInt 0),
            (''b'', JBool False), (''e'', JStr [])]
   \<and> (''bio'', JObj [])
        \<in> set (clean [(''bio'', JObj []), (''certifications'', JObj []), (''n'', JInt 0),
                       (''b'', JBool False), (''e'', JStr [])])
   \<and> (''certifications'', JObj [])
        \<notin> set (clean [(''bio'', JObj []), (''certifications'', JObj []), (''n'', JInt 0),
                       (''b'', JBool False), (''e'', JStr [])])
   \<and> clean [(''bio'', JObj []), (''certifications'', JObj []), (''n'', JInt 0),
            (''b'', JBool False), (''e'', JStr [])]
        = [(''bio'', JObj []), (''n'', JInt 0), (''b'', JBool False)]"
proof -
  let ?kvs = "[(''bio'', JObj []), (''certifications'', JObj []), (''n'', JInt 0),
               (''b'', JBool False), (''e'', JStr [])]"
  have m: "(''bio'', JObj []) \<in> set ?kvs"
    by simp
  have e: "clean ?kvs = [(''bio'', JObj []), (''n'', JInt 0), (''b'', JBool False)]"
    by (simp add: clean_def in_empties_def)
  have kept: "(''bio'', JObj []) \<in> set (clean ?kvs)"
    and denied: "(''certifications'', JObj []) \<notin> set (clean ?kvs)"
    using clean_keeps_other_values_outside_denylist[OF m] by simp_all
  from m kept denied e show ?thesis by blast
qed

text \<open>
  Claim C6 fails as stated: for a body without \<open>person\<close> the function does fail, but
  with the \<open>AttributeError\<close> of calling \<open>.items()\<close> on \<open>None\<close>, not with an exception of
  a class \<open>DataSourceError\<close>.
\<close>

theorem missing_person_raises_attribute_error:
  "snd (scrape_linkedin_profile (stub (JObj [(''status'', JStr ''ok'')]) ''u'') ''u'' False)
     = Inl (AttributeError ''NoneType'' ''items'')
   \<and> exception_class (AttributeError ''NoneType'' ''items'') \<noteq> ''DataSourceError''"
  by (simp add: scrape_defs stub_def)

text \<open>
  Claim C6, amended. Whenever the request the function sends is answered with a JSON
  object that has no key \<open>person\<close>, \<open>scrape_linkedin_profile\<close> fails with
  \<^verbatim>\<open>AttributeError: 'NoneType' object has no attribute 'items'\<close>.
\<close>

theorem scrape_without_person_fails_with_attribute_error:
  assumes "(if mock then requests_get c mock_url [] 10
            else requests_get c api_endpoint
                   [(''apikey'', getenv c ''SCRAPIN_API_KEY''), (''linkedInUrl'', Some url)] 10)
           = Inr (Response (Inr (JObj body)))"
      and "''person'' \<notin> fst ` set body"
  shows "snd (scrape_linkedin_profile c url mock) = Inl (AttributeError ''NoneType'' ''items'')"
proof -
  have "map_of body ''person'' = None"
    using assms(2) by (simp add: map_of_eq_None_iff)
  then show ?thesis
    using assms(1) by (auto simp: scrape_defs split: if_splits)
qed

theorem scrape_without_person_fails_with_attribute_error_witness:
  "requests_get (stub (JObj [(''status'', JStr ''ok'')]) ''u'') api_endpoint
       [(''apikey'', getenv (stub (JObj [(''status'', JStr ''ok'')]) ''u'') ''SCRAPIN_API_KEY''),
        (''linkedInUrl'', Some ''u'')] 10
     = Inr (Response (Inr (JObj [(''status'', JStr ''ok'')])))
   \<and> ''person'' \<notin> fst ` set [(''status'', JStr ''ok'')]
   \<and> snd (scrape_linkedin_profile (stub (JObj [(''status'', JStr ''ok'')]) ''u'') ''u'' False)
       = Inl (AttributeError ''NoneType'' ''items'')"
proof -
  let ?c = "stub (JObj [(''status'', JStr ''ok'')]) ''u''"
  have r: "(if False then requests_get ?c mock_url [] 10
            else requests_get ?c api_endpoint
                   [(''apikey'', getenv ?c ''SCRAPIN_API_KEY''), (''linkedInUrl'', Some ''u'')] 10)
           = Inr (Response (Inr (JObj [(''status'', JStr ''ok'')])))"
    by (simp add: stub_def)
  have p: "''person'' \<notin> fst ` set [(''status'', JStr ''ok'')]" by simp
  from scrape_without_person_fails_with_attribute_error[OF r p] r p show ?thesis by simp
qed

text \<open>
  Claim C9. In mock mode the profile URL passed in has no influence: for any two URLs
  the function sends the same request (a GET of the fixture's address, without
  parameters) and, the data source being the same, returns the same outcome.
\<close>

theorem mock_mode_ignores_profile_url:
  "scrape_linkedin_profile c url1 True = scrape_linkedin_profile c url2 True
   \<and> fst (scrape_linkedin_profile c url1 True) = [HttpGet mock_url [] 10]"
  by (simp add: scrape_defs)

theorem mock_mode_ignores_profile_url_witness:
  "scrape_linkedin_profile (stub (JObj [(''person'', JObj person_example)]) [])
      ''https://www.linkedin.com/in/a/'' True
   = scrape_linkedin_profile (stub (JObj [(''person'', JObj person_example)]) [])
      ''https://www.linkedin.com/in/b/'' True"
  using mock_mode_ignores_profile_url[of "stub (JObj [(''person'', JObj person_example)]) []"
          "''https://www.linkedin.com/in/a/''" "''https://www.linkedin.com/in/b/''"]
  by simp

section \<open>The orchestrator\<close>

lemma ice_break_with_success:
  assumes "ice_break_with c name = (tr, Inr (result, photo))"
  shows "\<exists>t1 url t2 doc reply.
           lookup c name = (t1, Inr url)
         \<and> scrape_linkedin_profile c url False = (t2, Inr doc)
         \<and> chat_model c (summary_prompt c doc) = Inr reply
         \<and> summary_output_parser c reply = Inr result
         \<and> photo = map_of doc ''photoUrl''"
  using assms
  by (auto simp: ice_break_with_def and_then_def Let_def split: prod.splits sum.splits)

lemma ice_break_with_after_lookup:
  assumes "lookup c name = (t1, Inr url)"
  shows "ice_break_with c name =
     (case scrape_linkedin_profile c url False of
        (t2, Inl e) \<Rightarrow> (t1 @ t2, Inl e)
      | (t2, Inr linkedin_data) \<Rightarrow>
          (t1 @ t2 @ [ModelInvoke (summary_prompt c linkedin_data)],
           and_then (chat_model c (summary_prompt c linkedin_data)) (\<lambda>reply.
           and_then (summary_output_parser c reply) (\<lambda>result.
           Inr (result, map_of linkedin_data ''photoUrl'')))))"
  using assms by (simp add: ice_break_with_def Let_def)

text \<open>The stages in the stub world, for any person object \<open>kvs\<close> and any output \<open>url\<close>
  of the executor.\<close>

lemma stub_lookup:
  "lookup (stub body url) name = ([AgentInvoke (lookup_prompt name)], Inr url)"
  by (simp add: lookup_def and_then_def stub_def)

lemma stub_scrape:
  "scrape_linkedin_profile (stub (JObj [(''person'', JObj kvs)]) url) u False
     = ([HttpGet api_endpoint [(''apikey'', Some ''key''), (''linkedInUrl'', Some u)] 10],
        Inr (clean kvs))"
  by (simp add: scrape_defs stub_def)

lemma stub_chat_model: "chat_model (stub body url) prompt = Inr summary_reply"
  by (simp add: stub_def)

lemma stub_parser:
  "summary_output_parser (stub body url) summary_reply
     = Inr \<lparr> summary = ''A is a engineer.'', facts = [''fact1'', ''fact2''] \<rparr>"
  by (simp add: stub_def)

lemma clean_person_with_photo: "clean person_with_photo = person_with_photo"
  by (simp add: clean_def in_empties_def person_with_photo_def)

lemma clean_person_example:
  "clean person_example = [(''name'', JStr ''X''), (''skills'', JArr [JStr ''s1''])]"
  by (simp add: clean_def in_empties_def person_example_def)

lemma stub_run:
  "ice_break_with (stub (JObj [(''person'', JObj person_with_photo)]) url) ''Ada''
     = ([AgentInvoke (lookup_prompt ''Ada''),
         HttpGet api_endpoint [(''apikey'', Some ''key''), (''linkedInUrl'', Some url)] 10,
         ModelInvoke
           (summary_prompt (stub (JObj [(''person'', JObj person_with_photo)]) url) person_with_photo)],
        Inr (\<lparr> summary = ''A is a engineer.'', facts = [''fact1'', ''fact2''] \<rparr>,
             Some (JStr ''https://img/x.png'')))"
proof -
  have ph: "map_of person_with_photo ''photoUrl'' = Some (JStr ''https://img/x.png'')"
    by (simp add: person_with_photo_def)
  show ?thesis
    by (simp add: ice_break_with_def stub_lookup stub_scrape clean_person_with_photo
                  stub_chat_model stub_parser ph and_then_def Let_def)
qed

text \<open>
  Claim C7. Whenever every stage succeeds (the resolver returns \<open>url\<close>, the data source
  returns the cleaned document \<open>doc\<close>, the model replies and the parser returns \<open>result\<close>),
  \<open>ice_break_with\<close> returns, and what it returns is \<open>result\<close> paired with
  \<open>doc.get("photoUrl")\<close>: \<open>None\<close> when the key is absent, and the value stored under the
  key when it is present.
\<close>

theorem ice_break_with_returns_summary_and_photo:
  assumes "lookup c name = (t1, Inr url)"
      and "scrape_linkedin_profile c url False = (t2, Inr doc)"
      and "chat_model c (summary_prompt c doc) = Inr reply"
      and "summary_output_parser c reply = Inr result"
  shows "ice_break_with c name
           = (t1 @ t2 @ [ModelInvoke (summary_prompt c doc)],
              Inr (result, map_of doc ''photoUrl''))
       \<and> (''photoUrl'' \<notin> fst ` set doc
            \<longrightarrow> snd (ice_break_with c name) = Inr (result, None))
       \<and> (''photoUrl'' \<in> fst ` set doc
            \<longrightarrow> (\<exists>v. (''photoUrl'', v) \<in> set doc
                     \<and> snd (ice_break_with c name) = Inr (result, Some v)))
       \<and> (\<forall>v. distinct (map fst doc) \<and> (''photoUrl'', v) \<in> set doc
            \<longrightarrow> snd (ice_break_with c name) = Inr (result, Some v))"
proof -
  have run: "ice_break_with c name
           = (t1 @ t2 @ [ModelInvoke (summary_prompt c doc)],
              Inr (result, map_of doc ''photoUrl''))"
    using assms by (simp add: ice_break_with_def and_then_def Let_def)
  have absent: "''photoUrl'' \<notin> fst ` set doc
            \<longrightarrow> snd (ice_break_with c name) = Inr (result, None)"
    using run by (simp add: map_of_eq_None_iff)
  have present: "''photoUrl'' \<in> fst ` set doc
            \<longrightarrow> (\<exists>v. (''photoUrl'', v) \<in> set doc
                     \<and> snd (ice_break_with c name) = Inr (result, Some v))"
  proof
    assume "''photoUrl'' \<in> fst ` set doc"
    then have "map_of doc ''photoUrl'' \<noteq> None"
      by (simp add: map_of_eq_None_iff)
    then obtain v where v: "map_of doc ''photoUrl'' = Some v" by blast
    then have "(''photoUrl'', v) \<in> set doc" by (rule map_of_SomeD)
    with v run
    show "\<exists>v. (''photoUrl'', v) \<in> set doc \<and> snd (ice_break_with c name) = Inr (result, Some v)"
      by auto
  qed
  have the_value: "\<forall>v. distinct (map fst doc) \<and> (''photoUrl'', v) \<in> set doc
            \<longrightarrow> snd (ice_break_with c name) = Inr (result, Some v)"
    using run by (auto simp: map_of_is_SomeI)
  from run absent present the_value show ?thesis by blast
qed

theorem ice_break_with_returns_summary_and_photo_witness:
  "ice_break_with (stub (JObj [(''person'', JObj person_with_photo)]) ''https://www.linkedin.com/in/x/'') ''Ada''
     = ([AgentInvoke (lookup_prompt ''Ada''),
         HttpGet api_endpoint
           [(''apikey'', Some ''key''), (''linkedInUrl'', Some ''https://www.linkedin.com/in/x/'')] 10,
         ModelInvoke
           (summary_prompt
              (stub (JObj [(''person'', JObj person_with_photo)]) ''https://www.linkedin.com/in/x/'')
              person_with_photo)],
        Inr (\<lparr> summary = ''A is a engineer.'', facts = [''fact1'', ''fact2''] \<rparr>,
             Some (JStr ''https://img/x.png'')))
   \<and> ice_break_with (stub (JObj [(''person'', JObj person_example)]) ''https://www.linkedin.com/in/x/'') ''Ada''
     = ([AgentInvoke (lookup_prompt ''Ada''),
         HttpGet api_endpoint
           [(''apikey'', Some ''key''), (''linkedInUrl'', Some ''https://www.linkedin.com/in/x/'')] 10,
         ModelInvoke
           (summary_prompt
              (stub (JObj [(''person'', JObj person_example)]) ''https://www.linkedin.com/in/x/'')
              [(''name'', JStr ''X''), (''skills'', JArr [JStr ''s1''])])],
        Inr (\<lparr> summary = ''A is a engineer.'', facts = [''fact1'', ''fact2''] \<rparr>, None))"
proof -
  let ?u = "''https://www.linkedin.com/in/x/''"
  let ?c = "stub (JObj [(''person'', JObj person_with_photo)]) ?u"
  let ?d = "stub (JObj [(''person'', JObj person_example)]) ?u"
  have scrape_c: "scrape_linkedin_profile ?c ?u False
     = ([HttpGet api_endpoint [(''apikey'', Some ''key''), (''linkedInUrl'', Some ?u)] 10],
        Inr person_with_photo)"
    by (simp add: stub_scrape clean_person_with_photo)
  have scrape_d: "scrape_linkedin_profile ?d ?u False
     = ([HttpGet api_endpoint [(''apikey'', Some ''key''), (''linkedInUrl'', Some ?u)] 10],
        Inr [(''name'', JStr ''X''), (''skills'', JArr [JStr ''s1''])])"
    by (simp add: stub_scrape clean_person_example)
  have ph: "map_of person_with_photo ''photoUrl'' = Some (JStr ''https://img/x.png'')"
    by (simp add: person_with_photo_def)
  have present: "ice_break_with ?c ''Ada''
     = ([AgentInvoke (lookup_prompt ''Ada''),
         HttpGet api_endpoint [(''apikey'', Some ''key''), (''linkedInUrl'', Some ?u)] 10,
         ModelInvoke (summary_prompt ?c person_with_photo)],
        Inr (\<lparr> summary = ''A is a engineer.'', facts = [''fact1'', ''fact2''] \<rparr>,
             Some (JStr ''https://img/x.png'')))"
    using ice_break_with_returns_summary_and_photo
            [OF stub_lookup scrape_c stub_chat_model stub_parser] ph
    by simp
  have absent: "ice_break_with ?d ''Ada''
     = ([AgentInvoke (lookup_prompt ''Ada''),
         HttpGet api_endpoint [(''apikey'', Some ''key''), (''linkedInUrl'', Some ?u)] 10,
         ModelInvoke (summary_prompt ?d [(''name'', JStr ''X''), (''skills'', JArr [JStr ''s1''])])],
        Inr (\<lparr> summary = ''A is a engineer.'', facts = [''fact1'', ''fact2''] \<rparr>, None))"
    using ice_break_with_returns_summary_and_photo
            [OF stub_lookup scrape_d stub_chat_model stub_parser]
    by simp
  from present absent show ?thesis by simp
qed

text \<open>
  Claim C1 fails as stated: when the resolver returns the empty string, the orchestrator
  does send the data source a request whose \<open>linkedInUrl\<close> is the empty string, and,
  the later stages succeeding, it returns a result instead of failing.
\<close>

theorem empty_identifier_is_fetched:
  "snd (lookup (stub (JObj [(''person'', JObj person_with_photo)]) []) ''Ada'') = Inr []
   \<and> ice_break_with (stub (JObj [(''person'', JObj person_with_photo)]) []) ''Ada''
     = ([AgentInvoke (lookup_prompt ''Ada''),
         HttpGet api_endpoint [(''apikey'', Some ''key''), (''linkedInUrl'', Some [])] 10,
         ModelInvoke
           (summary_prompt (stub (JObj [(''person'', JObj person_with_photo)]) []) person_with_photo)],
        Inr (\<lparr> summary = ''A is a engineer.'', facts = [''fact1'', ''fact2''] \<rparr>,
             Some (JStr ''https://img/x.png'')))"
proof -
  have "snd (lookup (stub (JObj [(''person'', JObj person_with_photo)]) []) ''Ada'') = Inr []"
    by (simp add: stub_lookup)
  with stub_run[of "[]"] show ?thesis by simp
qed

text \<open>
  Claim C1, amended. Whatever string the resolver returns, the empty string included,
  \<open>ice_break_with\<close> sends the data source a request with that string as \<open>linkedInUrl\<close>;
  it raises nothing of its own for an empty result: if it fails, the exception is the one
  raised by the data source stage, the chat model or the output parser.
\<close>

theorem lookup_result_is_fetched_unchecked:
  assumes "lookup c name = (t1, Inr url)"
  shows "HttpGet api_endpoint
           [(''apikey'', getenv c ''SCRAPIN_API_KEY''), (''linkedInUrl'', Some url)] 10
           \<in> set (fst (ice_break_with c name))
       \<and> (\<forall>e. snd (ice_break_with c name) = Inl e \<longrightarrow>
             snd (scrape_linkedin_profile c url False) = Inl e
           \<or> (\<exists>doc. snd (scrape_linkedin_profile c url False) = Inr doc
                \<and> (chat_model c (summary_prompt c doc) = Inl e
                   \<or> (\<exists>reply. chat_model c (summary_prompt c doc) = Inr reply
                         \<and> summary_output_parser c reply = Inl e))))"
proof -
  obtain t2 r where s: "scrape_linkedin_profile c url False = (t2, r)"
    by (cases "scrape_linkedin_profile c url False")
  have t2: "t2 = [HttpGet api_endpoint
                    [(''apikey'', getenv c ''SCRAPIN_API_KEY''), (''linkedInUrl'', Some url)] 10]"
    using scrape_trace[of c url] s by simp
  show ?thesis
    using ice_break_with_after_lookup[OF assms] s t2
    by (auto simp: and_then_def split: sum.splits)
qed

theorem lookup_result_is_fetched_unchecked_witness:
  "lookup (stub (JObj [(''status'', JStr ''ok'')]) []) ''Ada''
     = ([AgentInvoke (lookup_prompt ''Ada'')], Inr [])
   \<and> HttpGet api_endpoint [(''apikey'', Some ''key''), (''linkedInUrl'', Some [])] 10
        \<in> set (fst (ice_break_with (stub (JObj [(''status'', JStr ''ok'')]) []) ''Ada''))"
proof -
  let ?c = "stub (JObj [(''status'', JStr ''ok'')]) []"
  have lk: "lookup ?c ''Ada'' = ([AgentInvoke (lookup_prompt ''Ada'')], Inr [])"
    by (simp add: lookup_def and_then_def stub_def)
  have env: "getenv ?c ''SCRAPIN_API_KEY'' = Some ''key''"
    by (simp add: stub_def)
  from lookup_result_is_fetched_unchecked[OF lk] lk env show ?thesis by simp
qed

section \<open>The resolver\<close>

text \<open>\<open>lookup\<close> returns the executor's output as it is: it neither checks that the output
  is a URL or the empty string nor raises for any other text.\<close>

lemma lookup_returns_output_unchecked:
  assumes "agent_executor_invoke c (lookup_prompt name) = Inr result"
      and "map_of result ''output'' = Some out"
  shows "lookup c name = ([AgentInvoke (lookup_prompt name)], Inr out)"
  using assms by (simp add: lookup_def and_then_def Let_def)

text \<open>
  Claim C2, the code at a run that uses up the executor's iterations. When the model
  never gives a final answer the executor ends the run with \<open>stopped_output\<close>; \<open>lookup\<close>
  then does not fail: it returns that sentence, which is neither a profile URL nor the
  empty string its docstring promises, and \<open>ice_break_with\<close> sends it to the data source
  as \<open>linkedInUrl\<close>.
\<close>

theorem stop_message_returned_as_profile_url:
  "lookup (stub (JObj [(''person'', JObj person_with_photo)]) stopped_output) ''Ada''
     = ([AgentInvoke (lookup_prompt ''Ada'')],
        Inr ''Agent stopped due to iteration limit or time limit.'')
   \<and> HttpGet api_endpoint
        [(''apikey'', Some ''key''),
         (''linkedInUrl'', Some ''Agent stopped due to iteration limit or time limit.'')] 10
        \<in> set (fst (ice_break_with
                      (stub (JObj [(''person'', JObj person_with_photo)]) stopped_output) ''Ada''))"
proof -
  let ?c = "stub (JObj [(''person'', JObj person_with_photo)]) stopped_output"
  have ex: "agent_executor_invoke ?c (lookup_prompt ''Ada'')
              = Inr [(''input'', lookup_prompt ''Ada''), (''output'', stopped_output)]"
    by (simp add: stub_def)
  have out: "map_of [(''input'', lookup_prompt ''Ada''), (''output'', stopped_output)] ''output''
               = Some stopped_output"
    by simp
  have lk: "lookup ?c ''Ada'' = ([AgentInvoke (lookup_prompt ''Ada'')], Inr stopped_output)"
    by (rule lookup_returns_output_unchecked[OF ex out])
  from lk stub_run[of stopped_output] show ?thesis
    by (simp add: stopped_output_def)
qed

end
